theory Spec2Isabelle
  imports Complex_Main "HOL-Library.Sublist"
begin

section \<open>The cached completion wrapper (examples/local_BGE_local_LLM.py)\<close>

subsection \<open>Messages\<close>

text \<open>
  A chat message is a Python \<open>dict[str, str]\<close>; the wrapper builds its own messages with
  the keys \<open>role\<close> and \<open>content\<close> in that order and passes the history messages on
  untouched. A dict is kept as the list of its items in insertion order.
\<close>

type_synonym message = "(string \<times> string) list"

definition system_message :: "string \<Rightarrow> message" where
  "system_message system_prompt = [(''role'', ''system''), (''content'', system_prompt)]"

definition user_message :: "string \<Rightarrow> message" where
  "user_message prompt = [(''role'', ''user''), (''content'', prompt)]"

text \<open>
  Python truth of an optional string, as tested by \<open>if system_prompt:\<close>: \<open>None\<close> and the
  empty string are both false.
\<close>

fun truthy_str :: "string option \<Rightarrow> bool" where
  "truthy_str None = False"
| "truthy_str (Some s) = (s \<noteq> [])"

text \<open>\<open>history_messages or []\<close>: \<open>None\<close> and the empty list both give the empty list.\<close>

fun or_empty :: "'a list option \<Rightarrow> 'a list" where
  "or_empty None = []"
| "or_empty (Some xs) = (if xs = [] then [] else xs)"

text \<open>
  Lines 157 to 162 of \<open>_llm_with_cache\<close>: the list \<open>msgs\<close> starts empty, gets the system
  message when \<open>system_prompt\<close> is true, is extended by the history and gets the user
  message last.
\<close>

definition assemble_messages ::
  "string \<Rightarrow> string option \<Rightarrow> message list option \<Rightarrow> message list" where
  "assemble_messages prompt system_prompt history_messages =
     (let history = or_empty history_messages;
          msgs0 = [];
          msgs1 = (if truthy_str system_prompt
                   then msgs0 @ [system_message (the system_prompt)] else msgs0);
          msgs2 = msgs1 @ history;
          msgs3 = msgs2 @ [user_message prompt]
      in msgs3)"

text \<open>
  The sequence as the specification words it: the system message is there exactly when a
  system prompt was given at all.
\<close>

definition claimed_message_sequence ::
  "string \<Rightarrow> string option \<Rightarrow> message list option \<Rightarrow> message list" where
  "claimed_message_sequence prompt system_prompt history_messages =
     (case system_prompt of None \<Rightarrow> [] | Some s \<Rightarrow> [system_message s])
     @ (case history_messages of None \<Rightarrow> [] | Some h \<Rightarrow> h)
     @ [user_message prompt]"

subsection \<open>The key-value store behind the cache\<close>

datatype error = KeyError string | CompletionFailure string

text \<open>A cache record is a dict with string values, \<open>{"return": ..., "model": ...}\<close>.\<close>

type_synonym cache_record = "string \<rightharpoonup> string"

text \<open>
  A store object, such as the one handed over as \<open>hashing_kv\<close>: its records by id
  (\<open>BaseKVStorage\<close> is generic in the record type), and how often
  \<open>index_done_callback\<close> (the commit point of a namespace) has run.
\<close>

record 'v kv_storage =
  records :: "string \<rightharpoonup> 'v"
  commits :: nat

text \<open>
  Modelled from the spec: the concrete key-value store is not among the sources
  (\<open>BaseKVStorage\<close> only declares \<open>get_by_id\<close>, \<open>filter_keys\<close> and \<open>upsert\<close>).
  Section 4.1: \<open>get(id)\<close> gives the record or absent; \<open>filter_new(ids)\<close> gives the
  subset of ids not present (the declaration's docstring: "return un-exist keys", as a
  set); \<open>upsert\<close> of a map inserts its records, the last write winning per id.
\<close>

definition get_by_id :: "'v kv_storage \<Rightarrow> string \<Rightarrow> 'v option" where
  "get_by_id kv k = records kv k"

definition filter_keys :: "'v kv_storage \<Rightarrow> string list \<Rightarrow> string set" where
  "filter_keys kv data = set (filter (\<lambda>k. records kv k = None) data)"

definition kv_upsert :: "'v kv_storage \<Rightarrow> (string \<rightharpoonup> 'v) \<Rightarrow> 'v kv_storage" where
  "kv_upsert kv new = kv\<lparr>records := records kv ++ new\<rparr>"

definition index_done_callback :: "'v kv_storage \<Rightarrow> 'v kv_storage" where
  "index_done_callback kv = kv\<lparr>commits := Suc (commits kv)\<rparr>"

subsection \<open>The wrapper\<close>

text \<open>
  The world the wrapper acts on: the store passed as \<open>hashing_kv\<close> (\<open>None\<close> when the
  caller passes none) and the log of the calls the wrapper makes to \<open>_chat_completion\<close>,
  each with its model, messages and keyword options (a call that fails is logged too).
\<close>

record 'kw world =
  hashing_kv :: "cache_record kv_storage option"
  requests :: "(string \<times> message list \<times> 'kw) list"

definition cached_return :: "cache_record \<Rightarrow> error + string" where
  "cached_return cached =
     (case cached ''return'' of None \<Rightarrow> Inl (KeyError ''return'') | Some r \<Rightarrow> Inr r)"

definition completion_record :: "string \<Rightarrow> string \<Rightarrow> cache_record" where
  "completion_record answer model = [''return'' \<mapsto> answer, ''model'' \<mapsto> model]"

text \<open>
  \<open>_llm_with_cache\<close>. The hash function \<open>compute_args_hash\<close> (of \<open>graphrag._utils\<close>) and
  the completion service behind \<open>_chat_completion\<close> are parameters; the service answers
  with a text or fails, and a failure propagates as the exception would, before anything
  is stored.
\<close>

definition llm_with_cache ::
  "(string \<Rightarrow> message list \<Rightarrow> string) \<Rightarrow>
   (string \<Rightarrow> message list \<Rightarrow> 'kw \<Rightarrow> error + string) \<Rightarrow>
   string \<Rightarrow> string \<Rightarrow> string option \<Rightarrow> message list option \<Rightarrow> 'kw \<Rightarrow>
   'kw world \<Rightarrow> (error + string) \<times> 'kw world" where
  "llm_with_cache compute_args_hash chat_completion prompt model system_prompt
       history_messages kwargs w =
     (let msgs = assemble_messages prompt system_prompt history_messages;
          args_hash = compute_args_hash model msgs;
          cached = (case hashing_kv w of None \<Rightarrow> None | Some kv \<Rightarrow> get_by_id kv args_hash)
      in case cached of
           Some c \<Rightarrow> (cached_return c, w)
         | None \<Rightarrow>
             (let w1 = w\<lparr>requests := requests w @ [(model, msgs, kwargs)]\<rparr>
              in case chat_completion model msgs kwargs of
                   Inl e \<Rightarrow> (Inl e, w1)
                 | Inr answer \<Rightarrow>
                     (case hashing_kv w1 of
                        None \<Rightarrow> (Inr answer, w1)
                      | Some kv \<Rightarrow>
                          (Inr answer,
                           w1\<lparr>hashing_kv :=
                                Some (index_done_callback
                                  (kv_upsert kv
                                    [args_hash \<mapsto> completion_record answer model]))\<rparr>))))"

section \<open>Query parameters (graphrag/base.py)\<close>

text \<open>
  The default values of two fields of \<open>QueryParam\<close> are mutable objects made by a
  \<open>default_factory\<close>, so the model has an object store: an object lives at an address,
  a field holds the address, and mutating an object changes the store at that address.
  The store is the list of the objects allocated so far; an address is an index into it.
\<close>

datatype pyvalue = PyNone | PyStr string | PyInt int

datatype pyobject = PyDict "(string \<times> pyvalue) list" | PyList "pyvalue list"

type_synonym heap = "pyobject list"

definition alloc :: "heap \<Rightarrow> pyobject \<Rightarrow> nat \<times> heap" where
  "alloc h obj = (length h, h @ [obj])"

definition deref :: "heap \<Rightarrow> nat \<Rightarrow> pyobject option" where
  "deref h a = (if a < length h then Some (h ! a) else None)"

text \<open>Mutation in place: the object at the address is replaced by its new contents.\<close>

definition mutate :: "heap \<Rightarrow> nat \<Rightarrow> pyobject \<Rightarrow> heap" where
  "mutate h a obj = (if a < length h then h[a := obj] else h)"

text \<open>What the rest of a program does to the store: it allocates and it mutates.\<close>

datatype heap_op = New pyobject | Mutate nat pyobject

fun apply_heap_op :: "heap_op \<Rightarrow> heap \<Rightarrow> heap" where
  "apply_heap_op (New obj) h = snd (alloc h obj)"
| "apply_heap_op (Mutate a obj) h = mutate h a obj"

definition run_heap_ops :: "heap_op list \<Rightarrow> heap \<Rightarrow> heap" where
  "run_heap_ops ops h = fold apply_heap_op ops h"

record QueryParam =
  mode :: string
  only_need_context :: bool
  response_type :: string
  level :: int
  top_k :: int
  et_top_k :: int
  topk1 :: int
  max_token_for_text_unit :: int
  time_constraints :: nat
  entities :: nat

text \<open>
  \<open>QueryParam()\<close>: the generated \<open>__init__\<close> with every argument left out. The two
  factories run in field order, each allocating a new object.
\<close>

definition QueryParam_init :: "heap \<Rightarrow> QueryParam \<times> heap" where
  "QueryParam_init h =
     (let (tc, h1) = alloc h (PyDict [(''start_time'', PyNone), (''end_time'', PyNone)]);
          (en, h2) = alloc h1 (PyList [])
      in (\<lparr>mode = ''dynamic'',
           only_need_context = False,
           response_type = ''short and concise answer'',
           level = 2,
           top_k = 20,
           et_top_k = 20,
           topk1 = 500,
           max_token_for_text_unit = 12000,
           time_constraints = tc,
           entities = en\<rparr>, h2))"

section \<open>Token budgeting of the query planner\<close>

record TextChunkSchema =
  tokens :: int
  content :: string
  full_doc_id :: string
  chunk_order_index :: int
  doc_title :: string

text \<open>
  Modelled from the spec: the query planner is not among the sources (only the budget
  field \<open>QueryParam.max_token_for_text_unit\<close> and the chunk schema are). Section 4.5,
  step 6: accumulate the ranked text units, summing token counts, and stop strictly
  before the budget would be exceeded; a unit is taken whole or not at all.
  \<open>used\<close> is the sum of the units taken so far.
\<close>

fun accumulate_text_units :: "int \<Rightarrow> int \<Rightarrow> TextChunkSchema list \<Rightarrow> TextChunkSchema list" where
  "accumulate_text_units budget used [] = []"
| "accumulate_text_units budget used (u # us) =
     (if used + tokens u > budget then []
      else u # accumulate_text_units budget (used + tokens u) us)"

definition budget_text_units :: "QueryParam \<Rightarrow> TextChunkSchema list \<Rightarrow> TextChunkSchema list" where
  "budget_text_units param ranked = accumulate_text_units (max_token_for_text_unit param) 0 ranked"

section \<open>The vector index\<close>

type_synonym embedding = "real list"

text \<open>
  Cosine similarity of two embeddings, over the reals (the floating-point rounding of the
  program is not modelled).
\<close>

definition dot :: "embedding \<Rightarrow> embedding \<Rightarrow> real" where
  "dot a b = sum_list (map2 (*) a b)"

definition cosine_similarity :: "embedding \<Rightarrow> embedding \<Rightarrow> real" where
  "cosine_similarity a b = dot a b / (sqrt (dot a a) * sqrt (dot b b))"

record 'm index_entry =
  entry_id :: string
  entry_embedding :: embedding
  entry_metadata :: 'm

record 'm query_result =
  result_id :: string
  similarity :: real
  result_metadata :: 'm

definition score_entry :: "embedding \<Rightarrow> 'm index_entry \<Rightarrow> 'm query_result" where
  "score_entry q e =
     \<lparr>result_id = entry_id e,
      similarity = cosine_similarity q (entry_embedding e),
      result_metadata = entry_metadata e\<rparr>"

text \<open>
  Modelled from the spec: the concrete vector index is not among the sources
  (\<open>BaseVectorStorage.query\<close> is only declared). Section 4.2: \<open>query(text, top_k)\<close>
  gives the ranked list of \<open>{id, similarity, metadata}\<close> by cosine similarity between the
  query embedding and the stored embeddings, in descending order, ties broken by
  insertion order (a stable sort), cut to \<open>top_k\<close> results (the argument \<open>limit\<close>).
  The index is the list of its entries in insertion order; \<open>embed_text\<close> is the
  embedding service on one text.
\<close>

definition vector_query ::
  "(string \<Rightarrow> embedding) \<Rightarrow> 'm index_entry list \<Rightarrow> string \<Rightarrow> int \<Rightarrow> 'm query_result list" where
  "vector_query embed_text index query limit =
     (let q = embed_text query;
          scored = map (score_entry q) index;
          ranked = sort_key (\<lambda>r. - similarity r) scored
      in take (nat limit) ranked)"




section \<open>Properties of message assembly\<close>

lemma assemble_messages_eq:
  "assemble_messages prompt system_prompt history_messages =
     (if truthy_str system_prompt then [system_message (the system_prompt)] else [])
     @ or_empty history_messages @ [user_message prompt]"
  by (simp add: assemble_messages_def Let_def)

lemma or_empty_eq: "or_empty h = (case h of None \<Rightarrow> [] | Some xs \<Rightarrow> xs)"
  by (cases h) simp_all

lemma assemble_messages_literal:
  "assemble_messages prompt system_prompt history_messages =
     (case system_prompt of
        None \<Rightarrow> []
      | Some s \<Rightarrow> if s = [] then [] else [ [(''role'', ''system''), (''content'', s)] ])
     @ (case history_messages of None \<Rightarrow> [] | Some h \<Rightarrow> h)
     @ [ [(''role'', ''user''), (''content'', prompt)] ]"
  by (cases system_prompt)
     (simp_all add: assemble_messages_eq or_empty_eq system_message_def user_message_def)

text \<open>
  C9, as the code has it. Let \<open>msgs\<close> be: the message with role \<open>system\<close> and the system
  prompt as content when the system prompt is given and not the empty string, then the
  history messages in their order (none when the history is \<open>None\<close>), then the message
  with role \<open>user\<close> and the prompt as content, which is therefore last. Whenever
  \<open>_llm_with_cache\<close> asks the completion service, with a store that has no entry for the
  call or with no store at all, the one request it sends carries exactly \<open>msgs\<close>, and its
  result is what the service gives for \<open>msgs\<close>; on a cache hit it sends nothing.
\<close>

theorem llm_with_cache_request_messages:
  "let msgs = (case system_prompt of
                 None \<Rightarrow> []
               | Some s \<Rightarrow> if s = [] then [] else [ [(''role'', ''system''), (''content'', s)] ])
              @ (case history_messages of None \<Rightarrow> [] | Some h \<Rightarrow> h)
              @ [ [(''role'', ''user''), (''content'', prompt)] ];
       cached = (case hashing_kv w of
                   None \<Rightarrow> None
                 | Some kv \<Rightarrow> records kv (compute_args_hash model msgs));
       (res, w') = llm_with_cache compute_args_hash chat_completion prompt model
                      system_prompt history_messages kwargs w
   in requests w' = (if cached = None then requests w @ [(model, msgs, kwargs)] else requests w)
      \<and> res = (case cached of
                 None \<Rightarrow> chat_completion model msgs kwargs
               | Some c \<Rightarrow> (case c ''return'' of
                              None \<Rightarrow> Inl (KeyError ''return'')
                            | Some text \<Rightarrow> Inr text))
      \<and> last msgs = [(''role'', ''user''), (''content'', prompt)]"
  unfolding llm_with_cache_def assemble_messages_literal
  by (auto simp: Let_def get_by_id_def cached_return_def
           split: option.splits sum.splits)

text \<open>
  C9 as the specification states it fails for a system prompt that is given but empty:
  called without a store, the wrapper sends the user message alone, where the stated
  sequence has a system message with empty content before it.
\<close>

theorem llm_with_cache_empty_system_prompt:
  "snd (llm_with_cache (\<lambda>model msgs. model) (\<lambda>model msgs kw. Inr ''ok'')
          ''hello'' ''qwen'' (Some []) None () \<lparr>hashing_kv = None, requests = []\<rparr>)
     = \<lparr>hashing_kv = None,
        requests = [(''qwen'', [ [(''role'', ''user''), (''content'', ''hello'')] ], ())]\<rparr>
   \<and> claimed_message_sequence ''hello'' (Some []) None
       = [ [(''role'', ''system''), (''content'', [])],
           [(''role'', ''user''), (''content'', ''hello'')] ]
   \<and> [ [(''role'', ''user''), (''content'', ''hello'')] ]
       \<noteq> claimed_message_sequence ''hello'' (Some []) None"
  by (simp add: llm_with_cache_def assemble_messages_eq claimed_message_sequence_def
        system_message_def user_message_def Let_def)

section \<open>Properties of the cached completion wrapper\<close>

text \<open>
  C1: a call of \<open>_llm_with_cache\<close> with a store. When the store holds an entry under the
  hash of the model and the assembled messages, the entry's \<open>return\<close> text is the result,
  the completion service gets no request and nothing changes (an entry without a
  \<open>return\<close> key raises \<open>KeyError\<close>, still without a request). Otherwise the service gets
  exactly one request, for the model and the assembled messages; when it answers, the
  record of the answer and the model is in the store under that hash, the namespace is
  committed, and the answer is the result; when it fails, the store is as before.
\<close>

theorem llm_with_cache_contract:
  assumes "hashing_kv w = Some kv"
  shows "let msgs = assemble_messages prompt system_prompt history_messages;
             args_hash = compute_args_hash model msgs;
             (res, w') = llm_with_cache compute_args_hash chat_completion prompt model
                            system_prompt history_messages kwargs w
         in case records kv args_hash of
              Some cached \<Rightarrow>
                w' = w \<and>
                (case cached ''return'' of
                   Some text \<Rightarrow> res = Inr text
                 | None \<Rightarrow> res = Inl (KeyError ''return''))
            | None \<Rightarrow>
                requests w' = requests w @ [(model, msgs, kwargs)] \<and>
                (case chat_completion model msgs kwargs of
                   Inr answer \<Rightarrow>
                     res = Inr answer \<and>
                     hashing_kv w' =
                       Some (kv\<lparr>records := (records kv)
                                  (args_hash \<mapsto> [''return'' \<mapsto> answer, ''model'' \<mapsto> model]),
                               commits := Suc (commits kv)\<rparr>)
                 | Inl e \<Rightarrow> res = Inl e \<and> hashing_kv w' = Some kv)"
  using assms
  by (auto simp: llm_with_cache_def Let_def get_by_id_def kv_upsert_def
        index_done_callback_def cached_return_def completion_record_def
      split: option.splits sum.splits)

text \<open>
  A first call on an empty cache asks the service and stores the answer; the same call on
  the cache it leaves behind is answered from the cache, with no further request.
\<close>

theorem llm_with_cache_contract_witness:
  "hashing_kv \<lparr>hashing_kv = Some \<lparr>records = Map.empty, commits = 0\<rparr>, requests = []\<rparr>
     = Some \<lparr>records = Map.empty, commits = 0\<rparr>
   \<and> (let (res, w') =
          llm_with_cache (\<lambda>model msgs. model) (\<lambda>model msgs kw. Inr ''pong'')
            ''ping'' ''qwen'' None None ()
            \<lparr>hashing_kv = Some \<lparr>records = Map.empty, commits = 0\<rparr>, requests = []\<rparr>
       in res = Inr ''pong''
          \<and> requests w' = [(''qwen'', [ [(''role'', ''user''), (''content'', ''ping'')] ], ())]
          \<and> hashing_kv w' =
              Some \<lparr>records = [''qwen'' \<mapsto> [''return'' \<mapsto> ''pong'', ''model'' \<mapsto> ''qwen'']],
                    commits = 1\<rparr>)
   \<and> llm_with_cache (\<lambda>model msgs. model) (\<lambda>model msgs kw. Inr ''other'')
        ''ping'' ''qwen'' None None ()
        \<lparr>hashing_kv =
           Some \<lparr>records = [''qwen'' \<mapsto> [''return'' \<mapsto> ''pong'', ''model'' \<mapsto> ''qwen'']],
                 commits = 1\<rparr>,
         requests = [(''qwen'', [ [(''role'', ''user''), (''content'', ''ping'')] ], ())]\<rparr>
      = (Inr ''pong'',
         \<lparr>hashing_kv =
            Some \<lparr>records = [''qwen'' \<mapsto> [''return'' \<mapsto> ''pong'', ''model'' \<mapsto> ''qwen'']],
                  commits = 1\<rparr>,
          requests = [(''qwen'', [ [(''role'', ''user''), (''content'', ''ping'')] ], ())]\<rparr>)"
  using llm_with_cache_contract
    [of "\<lparr>hashing_kv = Some \<lparr>records = Map.empty, commits = 0\<rparr>, requests = []\<rparr>"
        "\<lparr>records = Map.empty, commits = 0\<rparr>"
        "''ping''" None None "\<lambda>model msgs. model" "''qwen''"
        "\<lambda>model msgs kw. Inr ''pong''" "()"]
    llm_with_cache_contract
    [of "\<lparr>hashing_kv =
           Some \<lparr>records = [''qwen'' \<mapsto> [''return'' \<mapsto> ''pong'', ''model'' \<mapsto> ''qwen'']],
                 commits = 1\<rparr>,
         requests = [(''qwen'', [ [(''role'', ''user''), (''content'', ''ping'')] ], ())]\<rparr>"
        "\<lparr>records = [''qwen'' \<mapsto> [''return'' \<mapsto> ''pong'', ''model'' \<mapsto> ''qwen'']],
          commits = 1\<rparr>"
        "''ping''" None None "\<lambda>model msgs. model" "''qwen''"
        "\<lambda>model msgs kw. Inr ''other''" "()"]
  by (simp add: assemble_messages_eq user_message_def Let_def split: prod.splits)

section \<open>Properties of the query parameters\<close>

lemma length_apply_heap_op: "length h \<le> length (apply_heap_op op h)"
  by (cases op) (simp_all add: alloc_def mutate_def)

lemma length_fold_heap_ops: "length h \<le> length (fold apply_heap_op ops h)"
proof (induction ops arbitrary: h)
  case Nil
  show ?case by simp
next
  case (Cons op ops)
  have "length h \<le> length (apply_heap_op op h)" by (rule length_apply_heap_op)
  also have "\<dots> \<le> length (fold apply_heap_op ops (apply_heap_op op h))" by (rule Cons.IH)
  finally show ?case by simp
qed

lemma length_run_heap_ops: "length h \<le> length (run_heap_ops ops h)"
  by (simp add: run_heap_ops_def length_fold_heap_ops)

lemma QueryParam_init_eq:
  "QueryParam_init h =
     (\<lparr>mode = ''dynamic'', only_need_context = False,
       response_type = ''short and concise answer'', level = 2, top_k = 20, et_top_k = 20,
       topk1 = 500, max_token_for_text_unit = 12000,
       time_constraints = length h, entities = Suc (length h)\<rparr>,
      h @ [PyDict [(''start_time'', PyNone), (''end_time'', PyNone)], PyList []])"
  by (simp add: QueryParam_init_def alloc_def)

lemma deref_mutate_other: "a \<noteq> b \<Longrightarrow> deref (mutate h a obj) b = deref h b"
  by (simp add: deref_def mutate_def)

text \<open>
  C10: \<open>QueryParam()\<close> has the default values of the dataclass; its \<open>time_constraints\<close>
  is a dict with \<open>start_time\<close> and \<open>end_time\<close> both \<open>None\<close> and its \<open>entities\<close> an empty
  list. Both objects are new: they were not in the store before the call. For two
  instances, made at any two moments of a program (\<open>ops\<close> is what the program does to
  the store in between), the four objects are pairwise different, so whatever is written
  into an object of one instance, the objects of the other read as before.
\<close>

theorem QueryParam_defaults_fresh:
  "let (p, h1) = QueryParam_init h;
       h2 = run_heap_ops ops h1;
       (p', h3) = QueryParam_init h2
   in mode p = ''dynamic'' \<and> only_need_context p = False
      \<and> response_type p = ''short and concise answer''
      \<and> level p = 2 \<and> top_k p = 20 \<and> et_top_k p = 20 \<and> topk1 p = 500
      \<and> max_token_for_text_unit p = 12000
      \<and> deref h1 (time_constraints p)
          = Some (PyDict [(''start_time'', PyNone), (''end_time'', PyNone)])
      \<and> deref h1 (entities p) = Some (PyList [])
      \<and> deref h3 (time_constraints p')
          = Some (PyDict [(''start_time'', PyNone), (''end_time'', PyNone)])
      \<and> deref h3 (entities p') = Some (PyList [])
      \<and> deref h (time_constraints p) = None \<and> deref h (entities p) = None
      \<and> deref h2 (time_constraints p') = None \<and> deref h2 (entities p') = None
      \<and> distinct [time_constraints p, entities p, time_constraints p', entities p']
      \<and> deref (mutate h3 (time_constraints p) obj) (time_constraints p')
          = deref h3 (time_constraints p')
      \<and> deref (mutate h3 (time_constraints p) obj) (entities p') = deref h3 (entities p')
      \<and> deref (mutate h3 (entities p) obj) (time_constraints p')
          = deref h3 (time_constraints p')
      \<and> deref (mutate h3 (entities p) obj) (entities p') = deref h3 (entities p')
      \<and> deref (mutate h3 (time_constraints p') obj) (time_constraints p)
          = deref h3 (time_constraints p)
      \<and> deref (mutate h3 (time_constraints p') obj) (entities p) = deref h3 (entities p)
      \<and> deref (mutate h3 (entities p') obj) (time_constraints p)
          = deref h3 (time_constraints p)
      \<and> deref (mutate h3 (entities p') obj) (entities p) = deref h3 (entities p)"
proof -
  define h1 where
    "h1 = h @ [PyDict [(''start_time'', PyNone), (''end_time'', PyNone)], PyList []]"
  define h2 where "h2 = run_heap_ops ops h1"
  have "length h1 \<le> length h2"
    unfolding h2_def by (rule length_run_heap_ops)
  then have n: "length h + 2 \<le> length h2" by (simp add: h1_def)
  have first:
    "deref h1 (length h) = Some (PyDict [(''start_time'', PyNone), (''end_time'', PyNone)])"
    "deref h1 (Suc (length h)) = Some (PyList [])"
    by (simp_all add: deref_def h1_def nth_append)
  show ?thesis
    using n first
    by (simp add: QueryParam_init_eq Let_def h1_def [symmetric] h2_def [symmetric]
          deref_mutate_other)
       (simp add: deref_def nth_append)
qed

section \<open>Properties of token budgeting\<close>

lemma accumulate_sum:
  "used \<le> budget \<Longrightarrow>
   used + sum_list (map tokens (accumulate_text_units budget used us)) \<le> budget"
proof (induction us arbitrary: used)
  case Nil
  then show ?case by simp
next
  case (Cons u us)
  show ?case
  proof (cases "used + tokens u > budget")
    case True
    with Cons.prems show ?thesis by simp
  next
    case False
    then have "used + tokens u \<le> budget" by simp
    from Cons.IH [OF this] False show ?thesis by (simp add: add.assoc)
  qed
qed

lemma accumulate_prefix: "prefix (accumulate_text_units budget used us) us"
  by (induction us arbitrary: used) simp_all

text \<open>
  C2: for a budget that is not negative, the token counts of the text units taken into
  the context sum to at most \<open>max_token_for_text_unit\<close>, and the units taken are an
  initial stretch of the ranked units, each of them as it was given: a unit is in the
  context whole or not at all.
\<close>

theorem budget_text_units_within_budget:
  assumes "0 \<le> max_token_for_text_unit param"
  shows "sum_list (map tokens (budget_text_units param ranked)) \<le> max_token_for_text_unit param
         \<and> prefix (budget_text_units param ranked) ranked
         \<and> set (budget_text_units param ranked) \<subseteq> set ranked"
  using accumulate_sum [of 0 "max_token_for_text_unit param" ranked] assms
    accumulate_prefix [of "max_token_for_text_unit param" 0 ranked]
  by (auto simp: budget_text_units_def dest: set_mono_prefix)

text \<open>
  The scenario of the specification: chunks of 500 and 9700 tokens against a budget of
  10000; only the first fits.
\<close>

theorem budget_text_units_within_budget_witness:
  "0 \<le> max_token_for_text_unit (fst (QueryParam_init [])\<lparr>max_token_for_text_unit := 10000\<rparr>)
   \<and> budget_text_units (fst (QueryParam_init [])\<lparr>max_token_for_text_unit := 10000\<rparr>)
        [\<lparr>tokens = 500, content = ''C1'', full_doc_id = ''d1'', chunk_order_index = 0,
           doc_title = ''one''\<rparr>,
         \<lparr>tokens = 9700, content = ''C2'', full_doc_id = ''d2'', chunk_order_index = 0,
           doc_title = ''two''\<rparr>]
      = [\<lparr>tokens = 500, content = ''C1'', full_doc_id = ''d1'', chunk_order_index = 0,
           doc_title = ''one''\<rparr>]
   \<and> sum_list (map tokens
        (budget_text_units (fst (QueryParam_init [])\<lparr>max_token_for_text_unit := 10000\<rparr>)
          [\<lparr>tokens = 500, content = ''C1'', full_doc_id = ''d1'', chunk_order_index = 0,
             doc_title = ''one''\<rparr>,
           \<lparr>tokens = 9700, content = ''C2'', full_doc_id = ''d2'', chunk_order_index = 0,
             doc_title = ''two''\<rparr>]))
      \<le> 10000"
  using budget_text_units_within_budget
    [of "fst (QueryParam_init [])\<lparr>max_token_for_text_unit := 10000\<rparr>"
        "[\<lparr>tokens = 500, content = ''C1'', full_doc_id = ''d1'', chunk_order_index = 0,
            doc_title = ''one''\<rparr>,
          \<lparr>tokens = 9700, content = ''C2'', full_doc_id = ''d2'', chunk_order_index = 0,
            doc_title = ''two''\<rparr>]"]
  by (simp add: budget_text_units_def QueryParam_init_eq)

section \<open>Properties of the key-value store\<close>

lemma filter_keys_eq: "filter_keys kv ids = set ids - dom (records kv)"
  by (auto simp: filter_keys_def)

lemma records_kv_upsert: "records (kv_upsert kv new) = records kv ++ new"
  by (simp add: kv_upsert_def)

text \<open>
  C6: \<open>filter_keys\<close> gives exactly the ids of the list that the store does not hold, and
  once records have been upserted under exactly those ids, \<open>filter_keys\<close> on the same
  list gives the empty set.
\<close>

theorem filter_keys_absent:
  "filter_keys kv ids = set ids - dom (records kv)
   \<and> (dom new = filter_keys kv ids \<longrightarrow> filter_keys (kv_upsert kv new) ids = {})"
proof (intro conjI impI)
  show "filter_keys kv ids = set ids - dom (records kv)"
    by (rule filter_keys_eq)
next
  assume new: "dom new = filter_keys kv ids"
  have "filter_keys (kv_upsert kv new) ids = set ids - (dom new \<union> dom (records kv))"
    by (simp add: filter_keys_eq records_kv_upsert)
  also have "\<dots> = {}"
    unfolding new filter_keys_eq by blast
  finally show "filter_keys (kv_upsert kv new) ids = {}" .
qed

theorem filter_keys_absent_witness:
  "dom [''b'' \<mapsto> (2::nat)] = filter_keys \<lparr>records = [''a'' \<mapsto> 1], commits = 0\<rparr> [''a'', ''b'']
   \<and> filter_keys \<lparr>records = [''a'' \<mapsto> (1::nat)], commits = 0\<rparr> [''a'', ''b''] = {''b''}
   \<and> filter_keys (kv_upsert \<lparr>records = [''a'' \<mapsto> 1], commits = 0\<rparr> [''b'' \<mapsto> (2::nat)])
        [''a'', ''b''] = {}"
proof -
  have h: "dom [''b'' \<mapsto> (2::nat)]
             = filter_keys \<lparr>records = [''a'' \<mapsto> 1], commits = 0\<rparr> [''a'', ''b'']"
    by (simp add: filter_keys_def)
  have v: "filter_keys \<lparr>records = [''a'' \<mapsto> (1::nat)], commits = 0\<rparr> [''a'', ''b''] = {''b''}"
    by (simp add: filter_keys_def)
  have e: "filter_keys (kv_upsert \<lparr>records = [''a'' \<mapsto> 1], commits = 0\<rparr> [''b'' \<mapsto> (2::nat)])
        [''a'', ''b''] = {}"
    by (rule filter_keys_absent
         [of "\<lparr>records = [''a'' \<mapsto> (1::nat)], commits = 0\<rparr>" "[''a'', ''b'']" "[''b'' \<mapsto> 2]",
          THEN conjunct2, THEN mp, OF h])
  from h v e show ?thesis by (intro conjI)
qed

section \<open>Properties of the vector index\<close>

lemma vector_query_eq:
  "vector_query embed_text index query limit =
     take (nat limit)
       (sort_key (\<lambda>r. - similarity r) (map (score_entry (embed_text query)) index))"
  by (simp add: vector_query_def Let_def)

lemma ranked_descending:
  "sorted_wrt (\<lambda>a b. similarity b \<le> similarity a) (sort_key (\<lambda>r. - similarity r) rs)"
proof -
  have "sorted (map (\<lambda>r. - similarity r) (sort_key (\<lambda>r. - similarity r) rs))"
    by (rule sorted_sort_key)
  then show ?thesis by (simp add: sorted_map)
qed

lemma ranked_ties:
  "filter (\<lambda>r. similarity r = s) (sort_key (\<lambda>r. - similarity r) rs)
     = filter (\<lambda>r. similarity r = s) rs"
  using sort_key_stable [of "\<lambda>r. - similarity r" "- s" rs] by simp

text \<open>
  C3: for a limit that is not negative, \<open>query\<close> gives at most \<open>limit\<close> results, and
  fewer only when the index holds fewer entries; the results are in order of
  non-increasing cosine similarity to the query embedding; and among the results of any
  one similarity \<open>s\<close> the order is the insertion order: they are an initial stretch of
  the index entries of that similarity, as inserted. Every result is the scored form of an
  index entry.
\<close>

theorem vector_query_ranked:
  assumes "0 \<le> limit"
  shows "int (length (vector_query embed_text index query limit)) \<le> limit
         \<and> length (vector_query embed_text index query limit) = min (nat limit) (length index)
         \<and> sorted_wrt (\<lambda>a b. similarity b \<le> similarity a)
              (vector_query embed_text index query limit)
         \<and> prefix (filter (\<lambda>r. similarity r = s) (vector_query embed_text index query limit))
              (map (score_entry (embed_text query))
                 (filter (\<lambda>e. cosine_similarity (embed_text query) (entry_embedding e) = s)
                    index))
         \<and> set (vector_query embed_text index query limit)
              \<subseteq> score_entry (embed_text query) ` set index"
proof (intro conjI)
  let ?ranked = "sort_key (\<lambda>r. - similarity r) (map (score_entry (embed_text query)) index)"
  show len: "length (vector_query embed_text index query limit) = min (nat limit) (length index)"
    by (simp add: vector_query_eq min.commute)
  from assms show "int (length (vector_query embed_text index query limit)) \<le> limit"
    unfolding len by simp
  show "sorted_wrt (\<lambda>a b. similarity b \<le> similarity a)
          (vector_query embed_text index query limit)"
    unfolding vector_query_eq by (rule sorted_wrt_take [OF ranked_descending])
  have "prefix (filter (\<lambda>r. similarity r = s) (take (nat limit) ?ranked))
          (filter (\<lambda>r. similarity r = s) ?ranked)"
    by (rule filter_mono_prefix [OF take_is_prefix])
  also have "filter (\<lambda>r. similarity r = s) ?ranked
      = map (score_entry (embed_text query))
          (filter (\<lambda>e. cosine_similarity (embed_text query) (entry_embedding e) = s) index)"
    by (simp add: ranked_ties filter_map o_def score_entry_def)
  finally show "prefix (filter (\<lambda>r. similarity r = s) (vector_query embed_text index query limit))
      (map (score_entry (embed_text query))
         (filter (\<lambda>e. cosine_similarity (embed_text query) (entry_embedding e) = s) index))"
    by (simp add: vector_query_eq)
  show "set (vector_query embed_text index query limit)
          \<subseteq> score_entry (embed_text query) ` set index"
  proof
    fix r assume "r \<in> set (vector_query embed_text index query limit)"
    then have "r \<in> set ?ranked" unfolding vector_query_eq by (rule in_set_takeD)
    then show "r \<in> score_entry (embed_text query) ` set index" by simp
  qed
qed

text \<open>
  Four entries, two of them at similarity 1 and two at 0, and a limit of 3: the two at 1
  come first, in insertion order, then the earlier one of those at 0.
\<close>

theorem vector_query_ranked_witness:
  "(0::int) \<le> 3
   \<and> vector_query (\<lambda>t. [1, 0])
         [\<lparr>entry_id = ''a'', entry_embedding = [0, 1], entry_metadata = ()\<rparr>,
          \<lparr>entry_id = ''b'', entry_embedding = [1, 0], entry_metadata = ()\<rparr>,
          \<lparr>entry_id = ''c'', entry_embedding = [2, 0], entry_metadata = ()\<rparr>,
          \<lparr>entry_id = ''d'', entry_embedding = [0, 3], entry_metadata = ()\<rparr>] ''q'' 3
       = [\<lparr>result_id = ''b'', similarity = 1, result_metadata = ()\<rparr>,
          \<lparr>result_id = ''c'', similarity = 1, result_metadata = ()\<rparr>,
          \<lparr>result_id = ''a'', similarity = 0, result_metadata = ()\<rparr>]
   \<and> int (length (vector_query (\<lambda>t. [1, 0])
         [\<lparr>entry_id = ''a'', entry_embedding = [0, 1], entry_metadata = ()\<rparr>,
          \<lparr>entry_id = ''b'', entry_embedding = [1, 0], entry_metadata = ()\<rparr>,
          \<lparr>entry_id = ''c'', entry_embedding = [2, 0], entry_metadata = ()\<rparr>,
          \<lparr>entry_id = ''d'', entry_embedding = [0, 3], entry_metadata = ()\<rparr>] ''q'' 3)) \<le> 3"
  using vector_query_ranked
    [of 3 "\<lambda>t. [1, 0]"
        "[\<lparr>entry_id = ''a'', entry_embedding = [0, 1], entry_metadata = ()\<rparr>,
          \<lparr>entry_id = ''b'', entry_embedding = [1, 0], entry_metadata = ()\<rparr>,
          \<lparr>entry_id = ''c'', entry_embedding = [2, 0], entry_metadata = ()\<rparr>,
          \<lparr>entry_id = ''d'', entry_embedding = [0, 3], entry_metadata = ()\<rparr>]" "''q''" 1]
  by (simp add: vector_query_eq score_entry_def cosine_similarity_def dot_def)








end
